theory Spec2Isabelle
  imports Main "HOL-Library.Word"
begin

section \<open>Text, bytes and the string operations the accessor uses\<close>

text \<open>
  The source is \<^verbatim>\<open>src/extractor/extractor/querier.py\<close>, the class \<^verbatim>\<open>Querier\<close>.
  A Python \<^verbatim>\<open>str\<close> is a sequence of code points; it is modelled as a \<open>string\<close> whose
  characters stand for the code points U+0000 to U+00FF. Logging has no effect on any
  result and is left out.
\<close>

type_synonym byte = "8 word"

text \<open>\<^verbatim>\<open>s.startswith(p)\<close>\<close>

fun startswith :: "string \<Rightarrow> string \<Rightarrow> bool" where
  "startswith s [] = True"
| "startswith [] (p # ps) = False"
| "startswith (c # cs) (p # ps) = (c = p \<and> startswith cs ps)"

text \<open>\<^verbatim>\<open>s.lstrip(chars)\<close>: drops leading characters as long as they occur in \<open>chars\<close>.\<close>

fun lstrip :: "string \<Rightarrow> string \<Rightarrow> string" where
  "lstrip [] chars = []"
| "lstrip (c # cs) chars = (if c \<in> set chars then lstrip cs chars else c # cs)"

text \<open>
  \<^verbatim>\<open>s.split(sep)\<close> for a separator of one character, as a scan from the left that
  collects the current piece in \<open>cur\<close>: every occurrence separates, empty pieces are
  kept, and the empty string gives one empty piece.
\<close>

fun split_scan :: "string \<Rightarrow> char \<Rightarrow> string \<Rightarrow> string list" where
  "split_scan [] sep cur = [cur]"
| "split_scan (c # cs) sep cur =
     (if c = sep then cur # split_scan cs sep [] else split_scan cs sep (cur @ [c]))"

definition split_sep :: "string \<Rightarrow> char \<Rightarrow> string list" where
  "split_sep s sep = split_scan s sep []"

text \<open>\<^verbatim>\<open>sep.join(pieces)\<close>\<close>

fun join :: "string \<Rightarrow> string list \<Rightarrow> string" where
  "join sep [] = []"
| "join sep [s] = s"
| "join sep (s # t # ts) = s @ sep @ join sep (t # ts)"

text \<open>
  \<^verbatim>\<open>s.encode("utf-8")\<close> on code points below 256: one byte below 128, otherwise the two
  bytes \<open>0xC0 | (n >> 6)\<close> and \<open>0x80 | (n & 0x3F)\<close>.
\<close>

definition encode_char :: "char \<Rightarrow> byte list" where
  "encode_char c =
     (let n = (of_char c :: nat)
      in if n < 128 then [of_nat n] else [of_nat (192 + n div 64), of_nat (128 + n mod 64)])"

definition encode :: "string \<Rightarrow> byte list" where
  "encode s = concat (map encode_char s)"

section \<open>Errors and the element tree\<close>

text \<open>
  The exceptions that can leave the accessor: \<open>ParseError\<close> from the XML parser,
  \<open>SyntaxError\<close> from the path engine, \<open>ValueError\<close> from \<^verbatim>\<open>int\<close> and \<^verbatim>\<open>float\<close>.
  \<open>Unmodelled\<close> marks a path expression outside the part of the path engine that is
  modelled below.
\<close>

datatype error = ParseError | SyntaxError | ValueError | Unmodelled

text \<open>
  An \<^verbatim>\<open>Element\<close> of \<^verbatim>\<open>xml.etree.ElementTree\<close>: the tag in the form \<^verbatim>\<open>{uri}local\<close>, the
  attributes, the text before the first child (\<^verbatim>\<open>None\<close> when there is none), the tail and
  the children in document order.
\<close>

datatype element =
  Element (tag: string) (attrib: "(string \<times> string) list") (elem_text: "string option")
    (tail: "string option") (children: "element list")

text \<open>
  The library calls are parameters of the model: \<open>fromstring\<close> is
  \<^verbatim>\<open>ElementTree.fromstring\<close>, \<open>efind\<close> is \<^verbatim>\<open>Element.find(path, namespaces)\<close>. Both only
  read their arguments.
\<close>

type_synonym parser = "byte list \<Rightarrow> error + element"
type_synonym finder = "element \<Rightarrow> string \<Rightarrow> (string \<times> string) list \<Rightarrow> error + element option"

section \<open>The accessor\<close>

record querier =
  namespaces :: "(string \<times> string) list"
  tree :: element

text \<open>\<^verbatim>\<open>Querier.__init__\<close>\<close>

definition Querier_init :: "element \<Rightarrow> querier" where
  "Querier_init t = \<lparr>namespaces = [(''efile'', ''http://www.irs.gov/efile'')], tree = t\<rparr>"

text \<open>
  The loop of \<^verbatim>\<open>Querier.from_file\<close>:
  \<^verbatim>\<open>while not content.startswith("<"): content = content[1:]\<close>.
  The value \<open>None\<close> says that the loop does not end.
\<close>

partial_function (option) from_file_loop :: "string \<Rightarrow> string option" where
  "from_file_loop content =
     (if \<not> startswith content ''<'' then from_file_loop (drop 1 content) else Some content)"

text \<open>
  \<^verbatim>\<open>Querier.from_file\<close>; \<open>xml_file\<close> is what \<^verbatim>\<open>xml_file.read()\<close> returns. The outer
  \<open>option\<close> is \<open>None\<close> when the call never returns.
\<close>

definition from_file :: "parser \<Rightarrow> string \<Rightarrow> (error + querier) option" where
  "from_file fromstring xml_file =
     (case from_file_loop xml_file of
        None \<Rightarrow> None
      | Some content \<Rightarrow>
          (let byteContent = encode content
           in case fromstring byteContent of
                Inl e \<Rightarrow> Some (Inl e)
              | Inr t \<Rightarrow> Some (Inr (Querier_init t))))"

text \<open>\<^verbatim>\<open>Querier._add_namespace\<close>; the method does not read \<^verbatim>\<open>self\<close>.\<close>

definition add_namespace :: "string \<Rightarrow> string" where
  "add_namespace path =
     (let segments = ''efile:ReturnData'' #
            map (\<lambda>tag. ''efile:'' @ tag) (split_sep (lstrip path ''/'') CHR ''/'');
          fullPath = join ''/'' segments
      in fullPath)"

text \<open>
  The lookups return their result together with the accessor as it is after the call.
  \<^verbatim>\<open>Querier.find_str\<close>:
\<close>

definition find_str :: "finder \<Rightarrow> querier \<Rightarrow> string \<Rightarrow> (error + string option) \<times> querier" where
  "find_str efind self path =
     (let fullPath = add_namespace path
      in case efind (tree self) fullPath (namespaces self) of
           Inl e \<Rightarrow> (Inl e, self)
         | Inr None \<Rightarrow> (Inr None, self)
         | Inr (Some element) \<Rightarrow> (Inr (elem_text element), self))"

text \<open>
  The built-in \<^verbatim>\<open>int\<close> on a string, base 10: whitespace around the numeral is dropped,
  one sign may precede the digits, and single underscores may stand between digits.
  A numeral with more digits than the interpreter's limit on the conversion
  (\<^verbatim>\<open>sys.get_int_max_str_digits()\<close>, 4300 by default; underscores, sign and whitespace
  do not count) is refused. \<open>None\<close> is the \<^verbatim>\<open>ValueError\<close>.
\<close>

definition int_max_str_digits :: nat where
  "int_max_str_digits = 4300"

definition is_space :: "char \<Rightarrow> bool" where
  "is_space c = ((of_char c :: nat) \<in> {9, 10, 11, 12, 13, 32, 133, 160})"

definition is_digit :: "char \<Rightarrow> bool" where
  "is_digit c = (48 \<le> (of_char c :: nat) \<and> (of_char c :: nat) \<le> 57)"

definition digit_val :: "char \<Rightarrow> nat" where
  "digit_val c = (of_char c :: nat) - 48"

fun digit_run :: "string \<Rightarrow> bool" where
  "digit_run [] = False"
| "digit_run [c] = is_digit c"
| "digit_run (c # d # cs) =
     (is_digit c \<and> (if d = CHR ''_'' then digit_run cs else digit_run (d # cs)))"

definition digits_value :: "string \<Rightarrow> nat" where
  "digits_value s = foldl (\<lambda>a c. if c = CHR ''_'' then a else 10 * a + digit_val c) 0 s"

definition strip_space :: "string \<Rightarrow> string" where
  "strip_space s = rev (dropWhile is_space (rev (dropWhile is_space s)))"

definition int_py :: "string \<Rightarrow> int option" where
  "int_py s =
     (let t = strip_space s;
          negative = startswith t ''-'';
          body = (if startswith t ''-'' \<or> startswith t ''+'' then drop 1 t else t)
      in if digit_run body \<and> length (filter is_digit body) \<le> int_max_str_digits
         then Some (if negative then - int (digits_value body) else int (digits_value body))
         else None)"

text \<open>\<^verbatim>\<open>Querier.find_int\<close>\<close>

definition find_int :: "finder \<Rightarrow> querier \<Rightarrow> string \<Rightarrow> (error + int option) \<times> querier" where
  "find_int efind self path =
     (case find_str efind self path of
        (Inl e, self') \<Rightarrow> (Inl e, self')
      | (Inr None, self') \<Rightarrow> (Inr None, self')
      | (Inr (Some rawValue), self') \<Rightarrow>
          (case int_py rawValue of
             None \<Rightarrow> (Inl ValueError, self')
           | Some n \<Rightarrow> (Inr (Some n), self')))"

text \<open>
  \<^verbatim>\<open>Querier.find_float\<close>. The built-in \<^verbatim>\<open>float\<close> is the parameter \<open>float_py\<close>, with
  \<open>None\<close> for its \<^verbatim>\<open>ValueError\<close>; the type of its values is left open.
\<close>

definition find_float ::
  "finder \<Rightarrow> (string \<Rightarrow> 'f option) \<Rightarrow> querier \<Rightarrow> string \<Rightarrow> (error + 'f option) \<times> querier" where
  "find_float efind float_py self path =
     (case find_str efind self path of
        (Inl e, self') \<Rightarrow> (Inl e, self')
      | (Inr None, self') \<Rightarrow> (Inr None, self')
      | (Inr (Some rawValue), self') \<Rightarrow>
          (case float_py rawValue of
             None \<Rightarrow> (Inl ValueError, self')
           | Some x \<Rightarrow> (Inr (Some x), self')))"

text \<open>
  A sequence of lookups on one accessor, each made on the accessor the previous one
  left: \<open>perform\<close> gives the accessor after one call.
\<close>

datatype lookup = Find_str string | Find_int string | Find_float string

fun perform :: "finder \<Rightarrow> (string \<Rightarrow> 'f option) \<Rightarrow> querier \<Rightarrow> lookup \<Rightarrow> querier" where
  "perform efind float_py self (Find_str path) = snd (find_str efind self path)"
| "perform efind float_py self (Find_int path) = snd (find_int efind self path)"
| "perform efind float_py self (Find_float path) = snd (find_float efind float_py self path)"

definition perform_all :: "finder \<Rightarrow> (string \<Rightarrow> 'f option) \<Rightarrow> querier \<Rightarrow> lookup list \<Rightarrow> querier" where
  "perform_all efind float_py self calls = foldl (perform efind float_py) self calls"

section \<open>The path engine on plain child steps\<close>

text \<open>
  \<^verbatim>\<open>Element.find\<close> with a namespace map goes through \<^verbatim>\<open>xml.etree.ElementPath\<close>
  (Python 3.8 and later), which is not part of the repository. Its behaviour is written
  out here for the paths whose steps are plain names: a step that is not empty, does not
  begin with one of \<^verbatim>\<open>. * : {\<close> or a quote, and has none of the characters
  \<^verbatim>\<open>[ ] ( ) @ ! =\<close> or whitespace is one name token. Every other path is answered
  with \<open>Unmodelled\<close>. A path built by \<open>add_namespace\<close> has steps that begin with
  \<^verbatim>\<open>efile:\<close>.
\<close>

definition is_re_space :: "char \<Rightarrow> bool" where
  "is_re_space c = ((of_char c :: nat) \<in> {9, 10, 11, 12, 13, 28, 29, 30, 31, 32, 133, 160})"

definition name_stop :: "char \<Rightarrow> bool" where
  "name_stop c = (c \<in> set ''/[]()@!='' \<or> is_re_space c)"

definition plain_step :: "string \<Rightarrow> bool" where
  "plain_step s =
     (s \<noteq> [] \<and> hd s \<notin> set [CHR ''.'', CHR ''*'', CHR '':'', CHR ''{'', CHR 0x27, CHR 0x22]
      \<and> list_all (\<lambda>c. \<not> name_stop c) s)"

text \<open>
  The tokenizer's treatment of a name: \<^verbatim>\<open>prefix:local\<close> becomes \<^verbatim>\<open>{uri}local\<close> with the
  URI bound to the prefix, and an unbound prefix is a \<^verbatim>\<open>SyntaxError\<close>; a name without a
  colon gets the default namespace when the map has a non-empty one.
\<close>

definition resolve_tag :: "(string \<times> string) list \<Rightarrow> string \<Rightarrow> error + string" where
  "resolve_tag nsmap t =
     (if CHR '':'' \<in> set t then
        (let prefix = takeWhile (\<lambda>c. c \<noteq> CHR '':'') t;
             local = drop 1 (dropWhile (\<lambda>c. c \<noteq> CHR '':'') t)
         in case map_of nsmap prefix of
              None \<Rightarrow> Inl SyntaxError
            | Some uri \<Rightarrow> Inr (''{'' @ uri @ ''}'' @ local))
      else
        (case map_of nsmap [] of
           None \<Rightarrow> Inr t
         | Some d \<Rightarrow> if d = [] then Inr t else Inr (''{'' @ d @ ''}'' @ t)))"

fun resolve_tags :: "(string \<times> string) list \<Rightarrow> string list \<Rightarrow> error + string list" where
  "resolve_tags nsmap [] = Inr []"
| "resolve_tags nsmap (t # ts) =
     (case resolve_tag nsmap t of
        Inl e \<Rightarrow> Inl e
      | Inr q \<Rightarrow> (case resolve_tags nsmap ts of Inl e \<Rightarrow> Inl e | Inr qs \<Rightarrow> Inr (q # qs)))"

text \<open>
  Which element tags a resolved name selects: the wildcard forms \<^verbatim>\<open>{*}*\<close>, \<^verbatim>\<open>{}*\<close>,
  \<^verbatim>\<open>{*}name\<close> and \<^verbatim>\<open>{uri}*\<close>, and otherwise equality, where \<^verbatim>\<open>{}name\<close> stands for
  \<^verbatim>\<open>name\<close>.
\<close>

definition match_tag :: "string \<Rightarrow> string \<Rightarrow> bool" where
  "match_tag t el_tag =
     (if t = ''{*}*'' then True
      else if t = ''{}*'' then take 1 el_tag \<noteq> ''{''
      else if take 3 t = ''{*}'' then
        (el_tag = drop 3 t \<or> drop (length el_tag - length (drop 2 t)) el_tag = drop 2 t)
      else if drop (length t - 2) t = ''}*'' then take (length t - 1) el_tag = butlast t
      else el_tag = (if take 2 t = ''{}'' then drop 2 t else t))"

text \<open>One child step over the current candidates, then the whole chain of steps.\<close>

definition select_child :: "string \<Rightarrow> element list \<Rightarrow> element list" where
  "select_child t result = concat (map (\<lambda>elem. filter (\<lambda>e. match_tag t (tag e)) (children elem)) result)"

fun select_all :: "string list \<Rightarrow> element list \<Rightarrow> element list" where
  "select_all [] result = result"
| "select_all (t # ts) result = select_all ts (select_child t result)"

definition etree_find :: finder where
  "etree_find elem path nsmap =
     (let steps = split_sep path CHR ''/''
      in if \<not> list_all plain_step steps then Inl Unmodelled
         else case resolve_tags nsmap steps of
                Inl e \<Rightarrow> Inl e
              | Inr tags \<Rightarrow>
                  (case select_all tags [elem] of
                     [] \<Rightarrow> Inr None
                   | e # _ \<Rightarrow> Inr (Some e)))"

section \<open>Sample documents\<close>

definition efile_elem :: "string \<Rightarrow> string option \<Rightarrow> element list \<Rightarrow> element" where
  "efile_elem name txt kids = Element (''{http://www.irs.gov/efile}'' @ name) [] txt None kids"

text \<open>
  A filing as the IRS publishes it: the root element \<^verbatim>\<open>Return\<close> with the child
  \<^verbatim>\<open>ReturnData\<close>. \<^verbatim>\<open>NoText\<close> is an element without character data
  (\<^verbatim>\<open><NoText/>\<close>), whose text the parser leaves \<^verbatim>\<open>None\<close>.
\<close>

definition filing :: element where
  "filing =
     efile_elem ''Return'' None
       [efile_elem ''ReturnData'' None
          [efile_elem ''TotalEmployeeCnt'' (Some ''19'') [],
           efile_elem ''IRS990'' None [efile_elem ''FormationYr'' (Some ''2004'') []],
           efile_elem ''NoText'' None [],
           efile_elem ''EmptyText'' (Some []) [],
           efile_elem ''Website'' (Some ''N/A'') []]]"

text \<open>A document whose root element is \<^verbatim>\<open>ReturnData\<close> itself.\<close>

definition bare_return_data :: element where
  "bare_return_data =
     efile_elem ''ReturnData'' None [efile_elem ''TotalEmployeeCnt'' (Some ''19'') []]"

text \<open>A filing whose \<^verbatim>\<open>TotalEmployeeCnt\<close> holds a given text.\<close>

definition count_filing :: "string \<Rightarrow> element" where
  "count_filing txt =
     efile_elem ''Return'' None
       [efile_elem ''ReturnData'' None [efile_elem ''TotalEmployeeCnt'' (Some txt) []]]"

text \<open>
  A parser that knows one document, for the closed instances of the statements about
  construction.
\<close>

definition filing_text :: string where
  "filing_text =
     ''<Return xmlns=\"http://www.irs.gov/efile\"><ReturnData>'' @ [CHR 0xE9]
       @ ''</ReturnData></Return>''"

text \<open>The UTF-8 bytes of that text, written out; U+00E9 takes the two bytes C3 A9.\<close>

definition filing_bytes :: "byte list" where
  "filing_bytes =
     [60, 82, 101, 116, 117, 114, 110, 32, 120, 109, 108, 110, 115, 61, 34, 104, 116, 116,
      112, 58, 47, 47, 119, 119, 119, 46, 105, 114, 115, 46, 103, 111, 118, 47, 101, 102,
      105, 108, 101, 34, 62, 60, 82, 101, 116, 117, 114, 110, 68, 97, 116, 97, 62, 195, 169,
      60, 47, 82, 101, 116, 117, 114, 110, 68, 97, 116, 97, 62, 60, 47, 82, 101, 116, 117,
      114, 110, 62]"

definition filing_tree :: element where
  "filing_tree = efile_elem ''Return'' None [efile_elem ''ReturnData'' (Some [CHR 0xE9]) []]"

definition one_document_parser :: parser where
  "one_document_parser bs = (if bs = filing_bytes then Inr filing_tree else Inl ParseError)"

text \<open>
  In the closed instances the built-in \<^verbatim>\<open>float\<close> is stood in for by a conversion that
  accepts the integer numerals, which \<^verbatim>\<open>float\<close> accepts as well, and nothing else.
\<close>

definition integral_float :: "string \<Rightarrow> int option" where
  "integral_float s = int_py s"

section \<open>Decimal notation\<close>

text \<open>The number that a row of decimal digits denotes, by the place of each digit.\<close>

fun positional_value :: "string \<Rightarrow> nat" where
  "positional_value [] = 0"
| "positional_value (d # ds) = digit_val d * 10 ^ length ds + positional_value ds"

section \<open>Path qualification as the specification words it\<close>

text \<open>
  The specification's algorithm: strip a single leading slash, split the remainder on
  \<^verbatim>\<open>/\<close>, prepend \<^verbatim>\<open>efile:ReturnData\<close>, prefix every other segment with \<^verbatim>\<open>efile:\<close>,
  join with \<^verbatim>\<open>/\<close>.
\<close>

definition strip_single_slash :: "string \<Rightarrow> string" where
  "strip_single_slash path = (if startswith path ''/'' then drop 1 path else path)"

definition spec_qualify :: "string \<Rightarrow> string" where
  "spec_qualify path =
     join ''/'' (''efile:ReturnData'' #
       map (\<lambda>seg. ''efile:'' @ seg) (split_sep (strip_single_slash path) CHR ''/''))"

section \<open>Facts about the string operations\<close>

lemma lstrip_replicate: "lstrip (replicate n CHR ''/'' @ p) ''/'' = lstrip p ''/''"
  by (induction n) simp_all

lemma lstrip_lstrip: "lstrip (lstrip p chars) chars = lstrip p chars"
  by (induction p) simp_all

lemma lstrip_no_slash: "\<not> startswith (lstrip p ''/'') ''/''"
  by (induction p) simp_all

lemma strip_single_lstrip: "strip_single_slash (lstrip p ''/'') = lstrip p ''/''"
  by (simp add: strip_single_slash_def lstrip_no_slash)

lemma lstrip_single: "\<not> startswith path ''//'' \<Longrightarrow> lstrip path ''/'' = strip_single_slash path"
proof (cases path)
  case Nil
  then show ?thesis by (simp add: strip_single_slash_def)
next
  case (Cons c cs)
  assume a: "\<not> startswith path ''//''"
  show ?thesis
  proof (cases "c = CHR ''/''")
    case True
    with a Cons have "\<not> startswith cs ''/''" by simp
    then have "lstrip cs ''/'' = cs" by (cases cs) auto
    with True Cons show ?thesis by (simp add: strip_single_slash_def)
  next
    case False
    with Cons show ?thesis by (simp add: strip_single_slash_def)
  qed
qed

lemma split_scan_append:
  "sep \<notin> set s \<Longrightarrow> split_scan (s @ r) sep cur = split_scan r sep (cur @ s)"
  by (induction s arbitrary: cur) auto

lemma split_scan_pieces:
  "sep \<notin> set cur \<Longrightarrow> list_all (\<lambda>w. sep \<notin> set w) (split_scan s sep cur)"
  by (induction s arbitrary: cur) simp_all

lemma split_sep_pieces: "list_all (\<lambda>w. sep \<notin> set w) (split_sep s sep)"
  by (simp add: split_sep_def split_scan_pieces)

text \<open>Splitting undoes joining when no piece holds the separator.\<close>

lemma split_sep_join:
  "segs \<noteq> [] \<Longrightarrow> list_all (\<lambda>w. sep \<notin> set w) segs \<Longrightarrow> split_sep (join [sep] segs) sep = segs"
proof (induction "[sep]" segs rule: join.induct)
  case 1
  then show ?case by simp
next
  case (2 s)
  then show ?case using split_scan_append [of sep s "[]" "[]"] by (simp add: split_sep_def)
next
  case (3 s t ts)
  then have IH: "split_scan (join [sep] (t # ts)) sep [] = t # ts"
    by (simp add: split_sep_def)
  have "sep \<notin> set s" using 3 by simp
  then have "split_scan (s @ sep # join [sep] (t # ts)) sep []
               = split_scan (sep # join [sep] (t # ts)) sep s"
    using split_scan_append [of sep s "sep # join [sep] (t # ts)" "[]"] by simp
  with IH show ?case by (simp add: split_sep_def)
qed

lemma add_namespace_segments:
  "split_sep (add_namespace path) CHR ''/'' =
     ''efile:ReturnData'' # map (\<lambda>seg. ''efile:'' @ seg) (split_sep (lstrip path ''/'') CHR ''/'')"
proof -
  let ?segs = "''efile:ReturnData'' #
      map (\<lambda>seg. ''efile:'' @ seg) (split_sep (lstrip path ''/'') CHR ''/'')"
  have "list_all (\<lambda>w. CHR ''/'' \<notin> set w) ?segs"
    using split_sep_pieces [of "CHR ''/''" "lstrip path ''/''"]
    by (auto simp: list_all_iff)
  then have "split_sep (join ''/'' ?segs) CHR ''/'' = ?segs"
    by (intro split_sep_join) simp_all
  then show ?thesis by (simp add: add_namespace_def)
qed

section \<open>Facts about the strip loop\<close>

text \<open>
  If the loop returns, the text held a \<^verbatim>\<open><\<close>: by the induction rule of the least fixed
  point.
\<close>

lemma from_file_loop_returns_bracket:
  "from_file_loop s = Some r \<Longrightarrow> CHR ''<'' \<in> set s"
proof (rule from_file_loop.raw_induct [where P = "\<lambda>s r. CHR ''<'' \<in> set s"])
  fix f content r
  assume IH: "\<And>x y. f x = Some y \<Longrightarrow> CHR ''<'' \<in> set x"
    and body: "(if \<not> startswith content ''<'' then f (drop 1 content) else Some content) = Some r"
  show "CHR ''<'' \<in> set content"
  proof (cases "startswith content ''<''")
    case True
    then show ?thesis by (cases content) auto
  next
    case False
    with body have "f (drop 1 content) = Some r" by simp
    then have "CHR ''<'' \<in> set (drop 1 content)" by (rule IH)
    then show ?thesis by (rule in_set_dropD)
  qed
qed

lemma from_file_loop_diverges: "CHR ''<'' \<notin> set s \<Longrightarrow> from_file_loop s = None"
  using from_file_loop_returns_bracket [of s] by (cases "from_file_loop s") auto

lemma from_file_loop_start: "startswith t ''<'' \<Longrightarrow> from_file_loop t = Some t"
  by (subst from_file_loop.simps) simp

lemma from_file_loop_skip: "c \<noteq> CHR ''<'' \<Longrightarrow> from_file_loop (c # s) = from_file_loop s"
  by (subst from_file_loop.simps) simp

lemma from_file_loop_junk:
  "CHR ''<'' \<notin> set junk \<Longrightarrow> from_file_loop (junk @ s) = from_file_loop s"
  by (induction junk) (simp_all add: from_file_loop_skip [OF not_sym])

lemma from_file_loop_total:
  "CHR ''<'' \<in> set s \<Longrightarrow> from_file_loop s = Some (dropWhile (\<lambda>c. c \<noteq> CHR ''<'') s)"
proof (induction s)
  case Nil
  then show ?case by simp
next
  case (Cons a s)
  show ?case
  proof (cases "a = CHR ''<''")
    case True
    then show ?thesis by (simp add: from_file_loop_start)
  next
    case False
    with Cons show ?thesis by (simp add: from_file_loop_skip)
  qed
qed

lemma from_file_diverges: "CHR ''<'' \<notin> set s \<Longrightarrow> from_file fromstring s = None"
  by (simp add: from_file_def from_file_loop_diverges)

section \<open>Facts about the lookups\<close>

lemma find_str_found:
  "efind (tree self) (add_namespace path) (namespaces self) = Inr (Some e) \<Longrightarrow>
   find_str efind self path = (Inr (elem_text e), self)"
  by (simp add: find_str_def)

lemma find_str_missing:
  "efind (tree self) (add_namespace path) (namespaces self) = Inr None \<Longrightarrow>
   find_str efind self path = (Inr None, self)"
  by (simp add: find_str_def)

lemma find_str_self: "snd (find_str efind self path) = self"
  by (simp add: find_str_def split: sum.split option.split)

lemma find_int_self: "snd (find_int efind self path) = self"
  using find_str_self [of efind self path]
  by (auto simp: find_int_def split: prod.split sum.split option.split)

lemma find_float_self: "snd (find_float efind float_py self path) = self"
  using find_str_self [of efind self path]
  by (auto simp: find_float_def split: prod.split sum.split option.split)

lemma perform_self: "perform efind float_py self call = self"
  by (cases call) (simp_all add: find_str_self find_int_self find_float_self)

lemma perform_all_self: "perform_all efind float_py self calls = self"
  unfolding perform_all_def by (induction calls) (simp_all add: perform_self)

section \<open>Facts about the integer conversion\<close>

lemma digit_not_space: "is_digit c \<Longrightarrow> \<not> is_space c"
  by (auto simp: is_digit_def is_space_def)

lemma digit_not_underscore: "is_digit c \<Longrightarrow> c \<noteq> CHR ''_''"
  by (auto simp: is_digit_def)

lemma digit_not_sign: "is_digit c \<Longrightarrow> c \<noteq> CHR ''-'' \<and> c \<noteq> CHR ''+''"
  by (auto simp: is_digit_def)

lemma dropWhile_keep: "s \<noteq> [] \<Longrightarrow> \<not> P (hd s) \<Longrightarrow> dropWhile P s = s"
  by (cases s) simp_all

lemma strip_space_keep:
  "s \<noteq> [] \<Longrightarrow> \<not> is_space (hd s) \<Longrightarrow> \<not> is_space (last s) \<Longrightarrow> strip_space s = s"
  by (simp add: strip_space_def dropWhile_keep hd_rev)

lemma digit_run_digits: "ds \<noteq> [] \<Longrightarrow> list_all is_digit ds \<Longrightarrow> digit_run ds"
  by (induction ds rule: digit_run.induct) (auto dest: digit_not_underscore)

lemma foldl_digits:
  "list_all is_digit ds \<Longrightarrow>
   foldl (\<lambda>a c. if c = CHR ''_'' then a else 10 * a + digit_val c) a ds
     = a * 10 ^ length ds + positional_value ds"
  by (induction ds arbitrary: a) (auto simp: algebra_simps dest: digit_not_underscore)

lemma digits_value_digits: "list_all is_digit ds \<Longrightarrow> digits_value ds = positional_value ds"
  by (simp add: digits_value_def foldl_digits)

text \<open>A row of digits converts to the number it denotes, also behind a sign.\<close>

lemma count_digits_le: "length ds \<le> n \<Longrightarrow> length (filter is_digit ds) \<le> n"
  by (rule order_trans [OF length_filter_le])

lemma int_py_digits:
  assumes "ds \<noteq> []" and "list_all is_digit ds" and "length ds \<le> 4300"
  shows "int_py ds = Some (int (positional_value ds))"
proof -
  from assms have hd: "is_digit (hd ds)" and lst: "is_digit (last ds)"
    by (auto simp: list_all_iff)
  from assms hd lst have "strip_space ds = ds"
    by (intro strip_space_keep digit_not_space) simp_all
  moreover from assms hd have "\<not> startswith ds ''-''" "\<not> startswith ds ''+''"
    by (cases ds; auto dest: digit_not_sign)+
  moreover from assms(3) have "length (filter is_digit ds) \<le> int_max_str_digits"
    by (simp add: int_max_str_digits_def count_digits_le)
  ultimately show ?thesis
    using assms by (simp add: int_py_def digit_run_digits digits_value_digits)
qed

text \<open>More digits than the limit are refused, whatever they are.\<close>

lemma int_py_over_limit:
  assumes "list_all is_digit ds" and "4300 < length ds"
  shows "int_py ds = None"
proof -
  from assms have "ds \<noteq> []" by auto
  with assms have hd: "is_digit (hd ds)" and lst: "is_digit (last ds)"
    by (auto simp: list_all_iff)
  from \<open>ds \<noteq> []\<close> hd lst have "strip_space ds = ds"
    by (intro strip_space_keep digit_not_space) simp_all
  moreover from \<open>ds \<noteq> []\<close> hd have "\<not> startswith ds ''-''" "\<not> startswith ds ''+''"
    by (cases ds; auto dest: digit_not_sign)+
  moreover from assms(1) have "filter is_digit ds = ds"
    by (simp add: list_all_iff)
  ultimately show ?thesis
    using assms(2) by (simp add: int_py_def int_max_str_digits_def)
qed

lemma int_py_signed:
  assumes "ds \<noteq> []" and "list_all is_digit ds" and "length ds \<le> 4300"
  shows "int_py (CHR ''-'' # ds) = Some (- int (positional_value ds))"
    and "int_py (CHR ''+'' # ds) = Some (int (positional_value ds))"
proof -
  from assms have lst: "is_digit (last ds)"
    by (auto simp: list_all_iff)
  from assms(3) have lim: "length (filter is_digit ds) \<le> int_max_str_digits"
    by (simp add: int_max_str_digits_def count_digits_le)
  have "strip_space (CHR ''-'' # ds) = CHR ''-'' # ds"
    using assms lst by (intro strip_space_keep) (auto simp: is_space_def dest: digit_not_space)
  then show "int_py (CHR ''-'' # ds) = Some (- int (positional_value ds))"
    using assms lim by (simp add: int_py_def digit_run_digits digits_value_digits)
  have "strip_space (CHR ''+'' # ds) = CHR ''+'' # ds"
    using assms lst by (intro strip_space_keep) (auto simp: is_space_def dest: digit_not_space)
  then show "int_py (CHR ''+'' # ds) = Some (int (positional_value ds))"
    using assms lim by (simp add: int_py_def digit_run_digits digits_value_digits)
qed

section \<open>The sample documents under the path engine\<close>

lemma filing_total_employee_cnt:
  "etree_find (tree (Querier_init filing)) (add_namespace ''TotalEmployeeCnt'')
     (namespaces (Querier_init filing))
   = Inr (Some (efile_elem ''TotalEmployeeCnt'' (Some ''19'') []))"
  by code_simp

lemma filing_total_employee_cnt_slash:
  "etree_find (tree (Querier_init filing)) (add_namespace ''/TotalEmployeeCnt'')
     (namespaces (Querier_init filing))
   = Inr (Some (efile_elem ''TotalEmployeeCnt'' (Some ''19'') []))"
  by code_simp

lemma filing_website:
  "etree_find (tree (Querier_init filing)) (add_namespace ''Website'')
     (namespaces (Querier_init filing))
   = Inr (Some (efile_elem ''Website'' (Some ''N/A'') []))"
  by code_simp

lemma filing_no_text:
  "etree_find (tree (Querier_init filing)) (add_namespace ''NoText'')
     (namespaces (Querier_init filing))
   = Inr (Some (efile_elem ''NoText'' None []))"
  by code_simp

lemma filing_empty_text:
  "etree_find (tree (Querier_init filing)) (add_namespace ''EmptyText'')
     (namespaces (Querier_init filing))
   = Inr (Some (efile_elem ''EmptyText'' (Some []) []))"
  by code_simp

lemma filing_missing:
  "etree_find (tree (Querier_init filing)) (add_namespace ''Missing'')
     (namespaces (Querier_init filing)) = Inr None"
  by code_simp

lemma bare_return_data_miss:
  "etree_find (tree (Querier_init bare_return_data)) (add_namespace ''/TotalEmployeeCnt'')
     (namespaces (Querier_init bare_return_data)) = Inr None"
  by code_simp

lemma count_filing_found:
  "etree_find (tree (Querier_init (count_filing txt))) (add_namespace ''/TotalEmployeeCnt'')
     (namespaces (Querier_init (count_filing txt)))
   = Inr (Some (efile_elem ''TotalEmployeeCnt'' (Some txt) []))"
  by code_simp

lemma long_digits:
  "list_all is_digit (replicate 4301 CHR ''1'') \<and> 4300 < length (replicate 4301 CHR ''1'')"
  by (simp add: list_all_iff is_digit_def)

lemma int_py_19: "int_py ''19'' = Some 19"
  by code_simp

lemma int_py_not_available: "int_py ''N/A'' = None"
  by code_simp

section \<open>Construction\<close>

text \<open>
  C1. The claim: for every input text without a \<^verbatim>\<open><\<close>, construction by \<open>from_file\<close>
  ends and reports a malformed-input error. In the code the strip loop never ends on
  such a text: once the content is empty, \<^verbatim>\<open>content[1:]\<close> is empty again, so the call
  neither returns an accessor nor raises. Shown here at the empty text and at a text of
  letters, for every parser.
\<close>

theorem from_file_without_bracket_never_returns:
  "from_file fromstring [] = None \<and> from_file fromstring ''no markup'' = None"
  by (simp add: from_file_diverges)

text \<open>
  C7, as the claim states it, fails: it promises that construction succeeds for every
  text that begins with \<^verbatim>\<open><\<close>, but the sanitized text still goes to the XML parser, and
  a text such as \<^verbatim>\<open><a>\<close>, whose element is never closed, is refused there. With or
  without three junk characters in front, construction ends in the parse error and no
  accessor is returned.
\<close>

theorem from_file_junk_prefix_counterexample:
  "startswith ''<a>'' ''<'' \<and> CHR 0xEF \<noteq> CHR ''<'' \<and> CHR 0xBB \<noteq> CHR ''<''
   \<and> CHR 0xBF \<noteq> CHR ''<''
   \<and> from_file one_document_parser (CHR 0xEF # CHR 0xBB # CHR 0xBF # ''<a>'')
       = Some (Inl ParseError)
   \<and> from_file one_document_parser ''<a>'' = Some (Inl ParseError)"
proof -
  have l1: "from_file_loop ''<a>'' = Some ''<a>''"
    by (simp add: from_file_loop_start)
  have l2: "from_file_loop (CHR 0xEF # CHR 0xBB # CHR 0xBF # ''<a>'') = Some ''<a>''"
    by (simp add: from_file_loop_skip from_file_loop_start)
  have p: "one_document_parser (encode ''<a>'') = Inl ParseError"
    by (simp add: one_document_parser_def filing_bytes_def encode_def encode_char_def)
  show ?thesis
    by (simp add: from_file_def l1 l2 p)
qed

text \<open>
  C7, amended. For every text \<open>t\<close> that begins with \<^verbatim>\<open><\<close> and every three characters
  other than \<^verbatim>\<open><\<close>, construction from the three characters followed by \<open>t\<close> ends, with
  the outcome of construction from \<open>t\<close> alone, which is the parser's outcome on the UTF-8
  bytes of \<open>t\<close>: it succeeds with an accessor on the tree \<open>tr\<close> exactly when the parser
  gives \<open>tr\<close> for \<open>t\<close>, and it ends in the error \<open>e\<close> exactly when the parser does.
\<close>

theorem from_file_junk_prefix:
  assumes "startswith t ''<''" and "a \<noteq> CHR ''<''" and "b \<noteq> CHR ''<''" and "c \<noteq> CHR ''<''"
  shows "from_file fromstring (a # b # c # t) = from_file fromstring t
       \<and> from_file fromstring t =
           Some (case fromstring (encode t) of Inl e \<Rightarrow> Inl e | Inr tr \<Rightarrow> Inr (Querier_init tr))
       \<and> (from_file fromstring (a # b # c # t) = Some (Inr (Querier_init tr))
            \<longleftrightarrow> fromstring (encode t) = Inr tr)
       \<and> (from_file fromstring (a # b # c # t) = Some (Inl e)
            \<longleftrightarrow> fromstring (encode t) = Inl e)"
proof -
  have skip: "from_file_loop (a # b # c # t) = from_file_loop t"
    using assms by (simp add: from_file_loop_skip)
  have stop: "from_file_loop t = Some t"
    using assms(1) by (rule from_file_loop_start)
  have inj: "Querier_init x = Querier_init y \<longleftrightarrow> x = y" for x y
    by (simp add: Querier_init_def)
  show ?thesis
    by (cases "fromstring (encode t)") (simp_all add: from_file_def skip stop inj)
qed

theorem from_file_junk_prefix_witness:
  "startswith filing_text ''<'' \<and> CHR 0xEF \<noteq> CHR ''<'' \<and> CHR 0xBB \<noteq> CHR ''<''
   \<and> CHR 0xBF \<noteq> CHR ''<''
   \<and> encode filing_text = filing_bytes
   \<and> one_document_parser (encode filing_text) = Inr filing_tree
   \<and> from_file one_document_parser (CHR 0xEF # CHR 0xBB # CHR 0xBF # filing_text)
       = from_file one_document_parser filing_text
   \<and> from_file one_document_parser (CHR 0xEF # CHR 0xBB # CHR 0xBF # filing_text)
       = Some (Inr (Querier_init filing_tree))"
proof -
  have h: "startswith filing_text ''<''" by (simp add: filing_text_def)
  have b: "encode filing_text = filing_bytes"
    by (simp add: filing_text_def filing_bytes_def encode_def encode_char_def)
  have p: "one_document_parser (encode filing_text) = Inr filing_tree"
    by (simp add: one_document_parser_def b)
  show ?thesis
    using h b p
      from_file_junk_prefix [OF h, of "CHR 0xEF" "CHR 0xBB" "CHR 0xBF" one_document_parser
        filing_tree ParseError]
    by simp
qed

section \<open>Path qualification\<close>

text \<open>
  C3, as the claim states it, fails: the specified algorithm strips one leading slash,
  the code strips all of them, and the two differ on a path with two leading slashes.
\<close>

theorem add_namespace_double_slash_counterexample:
  "add_namespace ''//a'' = ''efile:ReturnData/efile:a''
   \<and> spec_qualify ''//a'' = ''efile:ReturnData/efile:/efile:a''
   \<and> add_namespace ''//a'' \<noteq> spec_qualify ''//a''"
  by (simp add: add_namespace_def spec_qualify_def split_sep_def strip_single_slash_def)

text \<open>
  C3, amended. Path qualification strips every leading slash and then follows the
  specified algorithm: split on \<^verbatim>\<open>/\<close>, prepend \<^verbatim>\<open>efile:ReturnData\<close>, prefix every other
  segment with \<^verbatim>\<open>efile:\<close>, join with \<^verbatim>\<open>/\<close>. On a path that does not begin with two
  slashes it is the specified algorithm itself. The path \<^verbatim>\<open>/IRS990/FormationYr\<close> qualifies
  to \<^verbatim>\<open>efile:ReturnData/efile:IRS990/efile:FormationYr\<close>, and a path with a leading slash
  qualifies as the same path without it.
\<close>

theorem add_namespace_qualification:
  "add_namespace path = spec_qualify (lstrip path ''/'')
   \<and> (\<not> startswith path ''//'' \<longrightarrow> add_namespace path = spec_qualify path)
   \<and> add_namespace ''/IRS990/FormationYr'' = ''efile:ReturnData/efile:IRS990/efile:FormationYr''
   \<and> add_namespace (CHR ''/'' # p) = add_namespace p"
proof -
  have 1: "add_namespace path = spec_qualify (lstrip path ''/'')"
    by (simp add: add_namespace_def spec_qualify_def strip_single_lstrip)
  have 2: "\<not> startswith path ''//'' \<longrightarrow> add_namespace path = spec_qualify path"
    by (simp add: add_namespace_def spec_qualify_def lstrip_single)
  have 3: "add_namespace ''/IRS990/FormationYr''
             = ''efile:ReturnData/efile:IRS990/efile:FormationYr''"
    by (simp add: add_namespace_def split_sep_def)
  have 4: "add_namespace (CHR ''/'' # p) = add_namespace p"
    by (simp add: add_namespace_def)
  from 1 2 3 4 show ?thesis by blast
qed

theorem add_namespace_qualification_witness:
  "\<not> startswith ''/IRS990/FormationYr'' ''//''
   \<and> add_namespace ''/IRS990/FormationYr'' = spec_qualify ''/IRS990/FormationYr''
   \<and> spec_qualify ''/IRS990/FormationYr'' = ''efile:ReturnData/efile:IRS990/efile:FormationYr''"
proof -
  have h: "\<not> startswith ''/IRS990/FormationYr'' ''//''" by simp
  have s: "spec_qualify ''/IRS990/FormationYr'' = ''efile:ReturnData/efile:IRS990/efile:FormationYr''"
    by (simp add: spec_qualify_def split_sep_def strip_single_slash_def)
  from h s add_namespace_qualification [of "''/IRS990/FormationYr''"]
  show ?thesis by blast
qed

text \<open>
  C9. For every path \<open>p\<close> and every number \<open>n\<close>, qualifying \<open>n\<close> slashes followed by
  \<open>p\<close> gives what qualifying \<open>p\<close> without its leading slashes gives: all leading
  slashes are stripped.
\<close>

theorem add_namespace_leading_slashes:
  "add_namespace (replicate n CHR ''/'' @ p) = add_namespace (lstrip p ''/'')
   \<and> add_namespace (replicate n CHR ''/'' @ p) = add_namespace (dropWhile (\<lambda>c. c = CHR ''/'') p)
   \<and> lstrip (replicate n CHR ''/'' @ p) ''/'' = dropWhile (\<lambda>c. c = CHR ''/'') p"
proof -
  have d: "lstrip q ''/'' = dropWhile (\<lambda>c. c = CHR ''/'') q" for q
    by (induction q) simp_all
  have "add_namespace (replicate n CHR ''/'' @ p) = add_namespace (lstrip p ''/'')"
    by (simp add: add_namespace_def lstrip_replicate lstrip_lstrip)
  moreover have "lstrip (replicate n CHR ''/'' @ p) ''/'' = dropWhile (\<lambda>c. c = CHR ''/'') p"
    using lstrip_replicate [of n p] d [of p] by (rule trans)
  moreover have "add_namespace (lstrip p ''/'') = add_namespace (dropWhile (\<lambda>c. c = CHR ''/'') p)"
    using d [of p] by (rule arg_cong)
  ultimately show ?thesis by (simp only:) 
qed

text \<open>
  C10. Path qualification prefixes every segment with \<^verbatim>\<open>efile:\<close> whatever the segment
  holds: the segments of the qualified path are \<^verbatim>\<open>efile:ReturnData\<close> and then each
  segment of the caller's path behind \<^verbatim>\<open>efile:\<close>. A segment that has the prefix already
  gets it a second time, and the empty path qualifies to \<^verbatim>\<open>efile:ReturnData/efile:\<close>.
\<close>

theorem add_namespace_prefixes_every_segment:
  "split_sep (add_namespace path) CHR ''/''
     = ''efile:ReturnData'' #
       map (\<lambda>seg. ''efile:'' @ seg) (split_sep (lstrip path ''/'') CHR ''/'')
   \<and> add_namespace ''efile:Tag'' = ''efile:ReturnData/efile:efile:Tag''
   \<and> add_namespace ''IRS990/efile:Tag'' = ''efile:ReturnData/efile:IRS990/efile:efile:Tag''
   \<and> add_namespace [] = ''efile:ReturnData/efile:''"
proof -
  have "add_namespace ''efile:Tag'' = ''efile:ReturnData/efile:efile:Tag''"
    by (simp add: add_namespace_def split_sep_def)
  moreover have "add_namespace ''IRS990/efile:Tag''
                   = ''efile:ReturnData/efile:IRS990/efile:efile:Tag''"
    by (simp add: add_namespace_def split_sep_def)
  moreover have "add_namespace [] = ''efile:ReturnData/efile:''"
    by (simp add: add_namespace_def split_sep_def)
  ultimately show ?thesis
    using add_namespace_segments [of path] by blast
qed

section \<open>Lookups\<close>

text \<open>
  C2, as the claim states it, fails: an element that is present and has no text content
  (\<^verbatim>\<open><NoText/>\<close>) carries the text \<^verbatim>\<open>None\<close>, \<open>find_str\<close> returns that \<^verbatim>\<open>None\<close>, not the
  empty string, and the result is the one that a path matching no element gives.
\<close>

theorem find_str_no_text_counterexample:
  "etree_find (tree (Querier_init filing)) (add_namespace ''NoText'')
     (namespaces (Querier_init filing))
     = Inr (Some (efile_elem ''NoText'' None []))
   \<and> elem_text (efile_elem ''NoText'' None []) = None
   \<and> fst (find_str etree_find (Querier_init filing) ''NoText'') \<noteq> Inr (Some [])
   \<and> fst (find_str etree_find (Querier_init filing) ''NoText'')
       = fst (find_str etree_find (Querier_init filing) ''Missing'')"
  using filing_no_text filing_missing by (simp add: find_str_def efile_elem_def)

text \<open>
  C2, amended. For every document and every path whose qualified form matches an
  element, \<open>find_str\<close> returns the text of that element as the tree holds it and leaves
  the accessor as it was: the empty string exactly when the element's text is the empty
  string, and \<^verbatim>\<open>None\<close>, which is also the absent result, exactly when the element has no
  text.
\<close>

theorem find_str_returns_element_text:
  assumes "efind (tree self) (add_namespace path) (namespaces self) = Inr (Some e)"
  shows "find_str efind self path = (Inr (elem_text e), self)
       \<and> (fst (find_str efind self path) = Inr (Some []) \<longleftrightarrow> elem_text e = Some [])
       \<and> (fst (find_str efind self path) = Inr None \<longleftrightarrow> elem_text e = None)"
  using assms by (simp add: find_str_def)

theorem find_str_returns_element_text_witness:
  "etree_find (tree (Querier_init filing)) (add_namespace ''EmptyText'')
     (namespaces (Querier_init filing))
     = Inr (Some (efile_elem ''EmptyText'' (Some []) []))
   \<and> find_str etree_find (Querier_init filing) ''EmptyText'' = (Inr (Some []), Querier_init filing)"
  using filing_empty_text
    find_str_returns_element_text [where efind = etree_find and self = "Querier_init filing"
      and path = "''EmptyText''" and e = "efile_elem ''EmptyText'' (Some []) []"]
  by (simp add: efile_elem_def)

text \<open>
  C4. For every path whose lookup finds an element with a text, if the text is not valid
  integer syntax then \<open>find_int\<close> ends with the conversion error, and if it is not valid
  float syntax then \<open>find_float\<close> ends with the conversion error; the result is neither
  the absent result nor zero.
\<close>

theorem typed_lookup_conversion_error:
  assumes "efind (tree self) (add_namespace path) (namespaces self) = Inr (Some e)"
    and "elem_text e = Some t"
  shows "(int_py t = None \<longrightarrow>
            find_int efind self path = (Inl ValueError, self)
          \<and> fst (find_int efind self path) \<noteq> Inr None
          \<and> fst (find_int efind self path) \<noteq> Inr (Some 0))
       \<and> (float_py t = None \<longrightarrow>
            find_float efind float_py self path = (Inl ValueError, self)
          \<and> fst (find_float efind float_py self path) \<noteq> Inr None)"
  using assms by (simp add: find_int_def find_float_def find_str_found)

theorem typed_lookup_conversion_error_witness:
  "etree_find (tree (Querier_init filing)) (add_namespace ''Website'')
     (namespaces (Querier_init filing))
     = Inr (Some (efile_elem ''Website'' (Some ''N/A'') []))
   \<and> elem_text (efile_elem ''Website'' (Some ''N/A'') []) = Some ''N/A''
   \<and> int_py ''N/A'' = None \<and> integral_float ''N/A'' = None
   \<and> find_int etree_find (Querier_init filing) ''Website'' = (Inl ValueError, Querier_init filing)
   \<and> find_float etree_find integral_float (Querier_init filing) ''Website''
       = (Inl ValueError, Querier_init filing)"
proof -
  have t: "elem_text (efile_elem ''Website'' (Some ''N/A'') []) = Some ''N/A''"
    by (simp add: efile_elem_def)
  have f: "integral_float ''N/A'' = None"
    by (simp add: integral_float_def int_py_not_available)
  show ?thesis
    using filing_website t int_py_not_available f
      typed_lookup_conversion_error [where efind = etree_find and self = "Querier_init filing"
        and path = "''Website''" and e = "efile_elem ''Website'' (Some ''N/A'') []"
        and t = "''N/A''" and float_py = integral_float]
    by simp
qed

text \<open>
  C5. For every document and every path whose qualified form matches no element,
  \<open>find_str\<close>, \<open>find_int\<close> and \<open>find_float\<close> all return the absent result, not an
  error.
\<close>

theorem lookup_miss_is_absent:
  assumes "efind (tree self) (add_namespace path) (namespaces self) = Inr None"
  shows "find_str efind self path = (Inr None, self)
       \<and> find_int efind self path = (Inr None, self)
       \<and> find_float efind float_py self path = (Inr None, self)"
  using assms by (simp add: find_int_def find_float_def find_str_missing)

theorem lookup_miss_is_absent_witness:
  "etree_find (tree (Querier_init filing)) (add_namespace ''Missing'')
     (namespaces (Querier_init filing)) = Inr None
   \<and> find_str etree_find (Querier_init filing) ''Missing'' = (Inr None, Querier_init filing)
   \<and> find_int etree_find (Querier_init filing) ''Missing'' = (Inr None, Querier_init filing)
   \<and> find_float etree_find integral_float (Querier_init filing) ''Missing''
       = (Inr None, Querier_init filing)"
  using filing_missing
    lookup_miss_is_absent [where efind = etree_find and self = "Querier_init filing"
      and path = "''Missing''" and float_py = integral_float]
  by simp

text \<open>
  C6, as the claim states it, fails twice. In its instance: on a document whose root
  element is \<^verbatim>\<open>ReturnData\<close> and holds \<^verbatim>\<open>TotalEmployeeCnt\<close> with the text \<^verbatim>\<open>19\<close>, the
  lookup searches the children of the root for \<^verbatim>\<open>ReturnData\<close>, finds none, and
  \<open>find_int\<close> returns the absent result. In its general part: a text of 4301 digits is
  base-10 integer syntax, but it is over the interpreter's limit on the conversion, and
  \<open>find_int\<close> ends with the conversion error.
\<close>

theorem find_int_return_data_root_counterexample:
  "fst (find_int etree_find (Querier_init bare_return_data) ''/TotalEmployeeCnt'') = Inr None
   \<and> fst (find_int etree_find (Querier_init bare_return_data) ''/TotalEmployeeCnt'')
       \<noteq> Inr (Some 19)
   \<and> list_all is_digit (replicate 4301 CHR ''1'')
   \<and> fst (find_int etree_find (Querier_init (count_filing (replicate 4301 CHR ''1'')))
            ''/TotalEmployeeCnt'') = Inl ValueError"
proof -
  have "int_py (replicate 4301 CHR ''1'') = None"
    using long_digits by (intro int_py_over_limit) simp_all
  then have "fst (find_int etree_find (Querier_init (count_filing (replicate 4301 CHR ''1'')))
            ''/TotalEmployeeCnt'') = Inl ValueError"
    using count_filing_found [of "replicate 4301 CHR ''1''"]
    by (simp add: find_int_def find_str_def efile_elem_def)
  then show ?thesis
    using bare_return_data_miss long_digits by (simp add: find_int_def find_str_def)
qed

text \<open>
  C6, amended. For every path whose lookup finds an element whose text is valid base-10
  integer syntax within the interpreter's limit on the number of digits (4300 by
  default), so that \<^verbatim>\<open>int\<close> accepts it, \<open>find_int\<close> returns the integer parsed from that
  text; for a text of decimal digits, at most 4300 of them, that is the number the digits
  denote. In particular
  \<^verbatim>\<open>find_int("/TotalEmployeeCnt")\<close> returns 19 on a document whose root element has a
  \<^verbatim>\<open>ReturnData\<close> child, in the efile namespace, that holds a \<^verbatim>\<open>TotalEmployeeCnt\<close> element
  with the text \<^verbatim>\<open>19\<close>.
\<close>

theorem find_int_parses_text:
  "(efind (tree self) (add_namespace path) (namespaces self) = Inr (Some e)
      \<and> elem_text e = Some t \<and> int_py t = Some n
    \<longrightarrow> find_int efind self path = (Inr (Some n), self))
   \<and> (efind (tree self) (add_namespace path) (namespaces self) = Inr (Some e)
      \<and> elem_text e = Some t \<and> t \<noteq> [] \<and> list_all is_digit t \<and> length t \<le> 4300
    \<longrightarrow> find_int efind self path = (Inr (Some (int (positional_value t))), self))
   \<and> find_int etree_find (Querier_init filing) ''/TotalEmployeeCnt''
       = (Inr (Some 19), Querier_init filing)"
proof -
  have general: "find_int efind self path = (Inr (Some n), self)"
    if "efind (tree self) (add_namespace path) (namespaces self) = Inr (Some e)"
      and "elem_text e = Some t" and "int_py t = Some n" for n
    using that by (simp add: find_int_def find_str_found)
  have digits: "find_int efind self path = (Inr (Some (int (positional_value t))), self)"
    if "efind (tree self) (add_namespace path) (namespaces self) = Inr (Some e)"
      and "elem_text e = Some t" and "t \<noteq> []" and "list_all is_digit t"
      and "length t \<le> 4300"
    using that general [of "int (positional_value t)"] by (simp add: int_py_digits)
  have "find_int etree_find (Querier_init filing) ''/TotalEmployeeCnt''
          = (Inr (Some 19), Querier_init filing)"
    using filing_total_employee_cnt_slash int_py_19
    by (simp add: find_int_def find_str_def efile_elem_def)
  with general digits show ?thesis by blast
qed

theorem find_int_parses_text_witness:
  "etree_find (tree (Querier_init filing)) (add_namespace ''TotalEmployeeCnt'')
     (namespaces (Querier_init filing))
     = Inr (Some (efile_elem ''TotalEmployeeCnt'' (Some ''19'') []))
   \<and> elem_text (efile_elem ''TotalEmployeeCnt'' (Some ''19'') []) = Some ''19''
   \<and> int_py ''19'' = Some 19 \<and> ''19'' \<noteq> [] \<and> list_all is_digit ''19''
   \<and> length ''19'' \<le> 4300 \<and> positional_value ''19'' = 19
   \<and> find_int etree_find (Querier_init filing) ''TotalEmployeeCnt''
       = (Inr (Some 19), Querier_init filing)"
proof -
  have t: "elem_text (efile_elem ''TotalEmployeeCnt'' (Some ''19'') []) = Some ''19''"
    by (simp add: efile_elem_def)
  have d: "list_all is_digit ''19''"
    by (simp add: is_digit_def)
  have v: "positional_value ''19'' = 19"
    by (simp add: digit_val_def)
  show ?thesis
    using filing_total_employee_cnt t int_py_19 d v
      find_int_parses_text [where efind = etree_find and self = "Querier_init filing"
        and path = "''TotalEmployeeCnt''" and e = "efile_elem ''TotalEmployeeCnt'' (Some ''19'') []"
        and t = "''19''" and n = 19]
    by simp
qed

text \<open>
  C8. After construction the accessor is never changed: the namespace mapping is the one
  entry from \<^verbatim>\<open>efile\<close> to \<^verbatim>\<open>http://www.irs.gov/efile\<close>, every lookup and every sequence of
  lookups leaves the accessor, and so its tree, as it was, and a repeated \<open>find_str\<close>
  with the same path returns the same result.
\<close>

theorem accessor_never_mutated:
  "namespaces (Querier_init t) = [(''efile'', ''http://www.irs.gov/efile'')]
   \<and> perform_all efind float_py (Querier_init t) calls = Querier_init t
   \<and> namespaces (perform_all efind float_py (Querier_init t) calls)
       = [(''efile'', ''http://www.irs.gov/efile'')]
   \<and> tree (perform_all efind float_py (Querier_init t) calls) = t
   \<and> snd (find_str efind self path) = self
   \<and> snd (find_int efind self path) = self
   \<and> snd (find_float efind float_py self path) = self
   \<and> find_str efind (snd (find_str efind self path)) path = find_str efind self path
   \<and> find_str efind (perform_all efind float_py self calls) path = find_str efind self path"
  by (simp add: perform_all_self find_str_self find_int_self find_float_self)
     (simp add: Querier_init_def)

end
